theory Spec2Isabelle
  imports Main "HOL-Library.Word"
begin

unbundle bit_operations_syntax

section \<open>usbtest.c: a CDC-ACM client over libusb\<close>

text \<open>
  The program is a straight line of libusb calls followed by an endless transfer loop.
  The model runs it against an environment that fixes what every library call returns,
  and yields the list of observable events (library calls with their arguments, lines
  printed, the store into the receive buffer, the pause) together with the way the run
  ends.
\<close>

subsection \<open>Constants of the source and of libusb.h\<close>

type_synonym byte = "8 word"

definition ACM_CTRL_DTR :: "16 word" where
  "ACM_CTRL_DTR = 0x01"

definition ACM_CTRL_RTS :: "16 word" where
  "ACM_CTRL_RTS = 0x02"

definition ep_in_addr :: int where
  "ep_in_addr = 0x82"

definition ep_out_addr :: int where
  "ep_out_addr = 0x02"

text \<open>The value of \<^verbatim>\<open>LIBUSB_ERROR_TIMEOUT\<close> in libusb.h.\<close>

definition LIBUSB_ERROR_TIMEOUT :: int where
  "LIBUSB_ERROR_TIMEOUT = - 7"

text \<open>\<^verbatim>\<open>unsigned char encoding[] = { 0x00, 0xC2, 0x01, 0x00, 0x00, 0x00, 0x08 }\<close>\<close>

definition encoding :: "byte list" where
  "encoding = [0x00, 0xC2, 0x01, 0x00, 0x00, 0x00, 0x08]"

text \<open>The condition of \<^verbatim>\<open>while(1)\<close>.\<close>

definition while_cond :: int where
  "while_cond = 1"

subsection \<open>Events, outcomes and the environment\<close>

text \<open>
  Every libusb call passes the global \<^verbatim>\<open>devh\<close> (or the context); the events keep the
  other arguments. \<open>Control_transfer\<close> carries bmRequestType, bRequest, wValue, wIndex,
  the data pointer (\<open>None\<close> for \<^verbatim>\<open>NULL\<close>), wLength and the timeout. Both \<open>Bulk_write\<close>
  and \<open>Bulk_read\<close> are calls of \<^verbatim>\<open>libusb_bulk_transfer\<close>: the first is the call in
  \<^verbatim>\<open>write_char\<close> (endpoint, the bytes sent, timeout), the second the call in
  \<^verbatim>\<open>read_chars\<close> (endpoint, buffer size, timeout). \<open>Store_buf i\<close> is the assignment
  \<^verbatim>\<open>buf[i] = 0\<close>.
\<close>

datatype event =
    Set_option_weak_authority
  | Init
  | Wrap_sys_device int
  | Kernel_driver_active int
  | Detach_kernel_driver int
  | Claim_interface int
  | Control_transfer byte byte "16 word" "16 word" "byte list option" nat nat
  | Bulk_write int "byte list" nat
  | Bulk_read int int nat
  | Store_buf int
  | Sleep nat
  | Release_interface int
  | Close
  | Lib_exit
  | Stdout string
  | Stderr string

text \<open>
  \<open>Exit c\<close>: the process ends through \<^verbatim>\<open>exit(c)\<close> or \<^verbatim>\<open>return c\<close> from main.
  \<open>Undefined\<close>: the run reached a call whose behaviour the C standard leaves undefined
  (a null pointer given to \<^verbatim>\<open>sscanf\<close> or to \<^verbatim>\<open>%s\<close>, a \<^verbatim>\<open>%d\<close> conversion that
  does not fit an int). \<open>Running\<close>: the run is still inside the transfer loop after the
  number of iterations it was given.
\<close>

datatype outcome = Exit int | Undefined | Running

type_synonym run = "event list \<times> outcome"

text \<open>
  What the library answers. \<open>wrap_sys_device fd\<close> is the return code and whether
  \<^verbatim>\<open>devh\<close> is non-null after the call. The answers inside the loop are indexed by the
  iteration. \<open>bulk_read i\<close> is the return code and the value found in
  \<^verbatim>\<open>actual_length\<close> after the call; \<open>received_text i\<close> is what \<^verbatim>\<open>%s\<close> prints from
  \<^verbatim>\<open>buf\<close> in iteration \<open>i\<close> (device data, not modelled further).
\<close>

record env =
  error_name :: "int \<Rightarrow> string"
  set_option_rc :: int
  init_rc :: int
  wrap_sys_device :: "int \<Rightarrow> int \<times> bool"
  kernel_driver_active :: "int \<Rightarrow> int"
  detach_kernel_driver :: "int \<Rightarrow> int"
  claim_interface :: "int \<Rightarrow> int"
  line_state_rc :: int
  line_encoding_rc :: int
  bulk_write :: "nat \<Rightarrow> int"
  bulk_read :: "nat \<Rightarrow> int \<times> int"
  received_text :: "nat \<Rightarrow> string"

definition emit :: "event list \<Rightarrow> run \<Rightarrow> run" where
  "emit es r = (es @ fst r, snd r)"

subsection \<open>Formatted input and output\<close>

definition newline :: string where
  "newline = [CHR 0x0A]"

definition dquote :: string where
  "dquote = [CHR 0x22]"

definition digit_char :: "nat \<Rightarrow> char" where
  "digit_char d = ''0123456789'' ! d"

fun show_nat :: "nat \<Rightarrow> string" where
  "show_nat n = (if n < 10 then [digit_char n] else show_nat (n div 10) @ [digit_char (n mod 10)])"

declare show_nat.simps [simp del]

text \<open>The conversion \<^verbatim>\<open>%d\<close> of printf.\<close>

definition show_int :: "int \<Rightarrow> string" where
  "show_int i = (if i < 0 then CHR ''-'' # show_nat (nat (- i)) else show_nat (nat i))"

definition isspace :: "char \<Rightarrow> bool" where
  "isspace c = (of_char c \<in> {32, 9, 10, 11, 12, 13 :: nat})"

definition isdigit :: "char \<Rightarrow> bool" where
  "isdigit c = (48 \<le> (of_char c :: nat) \<and> (of_char c :: nat) \<le> 57)"

definition dec_value :: "string \<Rightarrow> int" where
  "dec_value ds = foldl (\<lambda>acc c. 10 * acc + (of_char c - 48)) 0 ds"

text \<open>
  \<^verbatim>\<open>sscanf(s, "%d", &fd)\<close>: white space is skipped, then an optional sign and the longest
  run of decimal digits are read. \<open>Scan_EOF\<close> (return value \<^verbatim>\<open>EOF\<close>): the string ended
  before any input item; \<open>Scan_mismatch\<close> (return value 0): no digit; \<open>Scan_ok v\<close>
  (return value 1): \<open>v\<close> is stored; \<open>Scan_overflow\<close>: the number does not fit an int,
  which the standard leaves undefined.
\<close>

datatype scan = Scan_EOF | Scan_mismatch | Scan_ok int | Scan_overflow

definition sscanf_d :: "string \<Rightarrow> scan" where
  "sscanf_d s =
     (let s1 = dropWhile isspace s in
      if s1 = [] then Scan_EOF
      else
        let neg = (hd s1 = CHR ''-'');
            s2 = (if hd s1 = CHR ''-'' \<or> hd s1 = CHR ''+'' then tl s1 else s1);
            ds = takeWhile isdigit s2;
            v = (if neg then - dec_value ds else dec_value ds)
        in if ds = [] then Scan_mismatch
           else if - (2 ^ 31) \<le> v \<and> v < 2 ^ 31 then Scan_ok v
           else Scan_overflow)"

text \<open>
  \<^verbatim>\<open>argv[i]\<close> for an argument vector of \<open>length argv\<close> strings: \<^verbatim>\<open>argv[argc]\<close> is the
  null pointer (\<open>None\<close>). The program reads only \<^verbatim>\<open>argv[0]\<close> and \<^verbatim>\<open>argv[1]\<close>, and
  \<^verbatim>\<open>argv[1]\<close> only when \<open>argc \<ge> 1\<close>.
\<close>

definition argv_at :: "string list \<Rightarrow> nat \<Rightarrow> string option" where
  "argv_at argv i = (if i < length argv then Some (argv ! i) else None)"

subsection \<open>write_char and read_chars\<close>

text \<open>
  \<^verbatim>\<open>write_char(c)\<close> in iteration \<open>i\<close>: one bulk transfer of the byte to
  \<^verbatim>\<open>ep_out_addr\<close> with timeout 0; a negative return is reported on standard error.
\<close>

definition write_char :: "env \<Rightarrow> nat \<Rightarrow> byte \<Rightarrow> event list" where
  "write_char e i c =
     (if bulk_write e i < 0
      then [Bulk_write ep_out_addr [c] 0, Stderr (''Error while sending char'' @ newline)]
      else [Bulk_write ep_out_addr [c] 0])"

text \<open>
  \<^verbatim>\<open>read_chars(data, size)\<close> in iteration \<open>i\<close>: one bulk transfer from
  \<^verbatim>\<open>ep_in_addr\<close> with a timeout of 1000 ms; the events and the value returned.
\<close>

definition read_chars :: "env \<Rightarrow> nat \<Rightarrow> int \<Rightarrow> event list \<times> int" where
  "read_chars e i sz =
     (let rc = fst (bulk_read e i); actual_length = snd (bulk_read e i) in
      if rc = LIBUSB_ERROR_TIMEOUT then
        ([Bulk_read ep_in_addr sz 1000,
          Stdout (''timeout ('' @ show_int actual_length @ '')'' @ newline)], - 1)
      else if rc < 0 then
        ([Bulk_read ep_in_addr sz 1000,
          Stderr (''Error while waiting for char'' @ newline)], - 1)
      else ([Bulk_read ep_in_addr sz 1000], actual_length))"

subsection \<open>main\<close>

text \<open>The label \<^verbatim>\<open>out\<close>: close the handle if there is one, leave the library, return rc.\<close>

definition out_label :: "bool \<Rightarrow> int \<Rightarrow> run" where
  "out_label devh rc = ((if devh then [Close] else []) @ [Lib_exit], Exit rc)"

text \<open>
  The body of the transfer loop in iteration \<open>i\<close>:
  \<^verbatim>\<open>write_char('t'); len = read_chars(buf, 64); buf[len] = 0; fprintf(...); sleep(1);\<close>
\<close>

definition loop_body :: "env \<Rightarrow> nat \<Rightarrow> event list" where
  "loop_body e i =
     (let len = snd (read_chars e i 64) in
      write_char e i (of_char CHR ''t'') @ fst (read_chars e i 64) @
      [Store_buf len,
       Stdout (''Received: '' @ dquote @ received_text e i @ dquote @ newline),
       Sleep 1])"

text \<open>
  \<^verbatim>\<open>while(1) { ... }\<close> followed by \<^verbatim>\<open>libusb_release_interface(devh, 0)\<close> and the label
  \<^verbatim>\<open>out\<close>. The first argument bounds the number of iterations that are run; \<open>i\<close> counts
  the iterations done so far.
\<close>

fun transfer_loop :: "nat \<Rightarrow> env \<Rightarrow> nat \<Rightarrow> bool \<Rightarrow> int \<Rightarrow> run" where
  "transfer_loop 0 e i devh rc = ([], Running)"
| "transfer_loop (Suc n) e i devh rc =
     (if while_cond \<noteq> 0 then emit (loop_body e i) (transfer_loop n e (Suc i) devh rc)
      else emit [Release_interface 0] (out_label devh rc))"

text \<open>
  \<^verbatim>\<open>if (libusb_kernel_driver_active(devh, if_num)) libusb_detach_kernel_driver(devh, if_num);\<close>
  The result of the detach call is dropped.
\<close>

definition detach_driver :: "env \<Rightarrow> int \<Rightarrow> event list" where
  "detach_driver e if_num =
     (if kernel_driver_active e if_num \<noteq> 0
      then [Kernel_driver_active if_num, Detach_kernel_driver if_num]
      else [Kernel_driver_active if_num])"

text \<open>
  The loop over the two interfaces, from \<open>if_num\<close> on. \<open>Some rc\<close> is the jump to
  \<^verbatim>\<open>out\<close> with the claim's negative return code, \<open>None\<close> the normal end of the loop.
\<close>

function claim_loop :: "env \<Rightarrow> int \<Rightarrow> event list \<times> int option" where
  "claim_loop e if_num =
     (if if_num < 2 then
        (let rc = claim_interface e if_num in
         if rc < 0 then
           (detach_driver e if_num @
            [Claim_interface if_num,
             Stderr (''Error claiming interface: '' @ error_name e rc @ newline)], Some rc)
         else (detach_driver e if_num @ [Claim_interface if_num] @
                 fst (claim_loop e (if_num + 1)),
               snd (claim_loop e (if_num + 1))))
      else ([], None))"
  by pat_completeness auto
termination
  by (relation "measure (\<lambda>(e, if_num). nat (2 - if_num))") auto

declare claim_loop.simps [simp del]

text \<open>The two control transfers and the transfer loop (from "Start configuring the device").\<close>

definition line_state_transfer :: event where
  "line_state_transfer = Control_transfer 0x21 0x22 (ACM_CTRL_DTR OR ACM_CTRL_RTS) 0 None 0 0"

definition line_encoding_transfer :: event where
  "line_encoding_transfer = Control_transfer 0x21 0x20 0 0 (Some encoding) (length encoding) 0"

definition configure :: "nat \<Rightarrow> env \<Rightarrow> bool \<Rightarrow> run" where
  "configure fuel e devh =
     (let rc = line_state_rc e in
      if rc < 0 then
        emit [line_state_transfer,
              Stderr (''Error during control transfer: '' @ error_name e rc @ newline)]
          (out_label devh rc)
      else
        let rc = line_encoding_rc e in
        if rc < 0 then
          emit [line_state_transfer, line_encoding_transfer,
                Stderr (''Error during control transfer: '' @ error_name e rc @ newline)]
            (out_label devh rc)
        else emit [line_state_transfer, line_encoding_transfer]
               (transfer_loop fuel e 0 devh rc))"

text \<open>From \<^verbatim>\<open>libusb_set_option\<close> to the end, for the descriptor \<open>fd\<close> read from argv[1].\<close>

definition main_body :: "nat \<Rightarrow> env \<Rightarrow> int \<Rightarrow> run" where
  "main_body fuel e fd =
     (let rc = set_option_rc e in
      if rc < 0 then
        ([Set_option_weak_authority,
          Stderr (''Error setting libusb option: '' @ error_name e rc @ newline)], Exit 1)
      else
        let rc = init_rc e in
        if rc < 0 then
          ([Set_option_weak_authority, Init,
            Stderr (''Error initializing libusb: '' @ error_name e rc @ newline)], Exit 1)
        else
          let rc = fst (wrap_sys_device e fd); devh = snd (wrap_sys_device e fd) in
          if rc < 0 then
            emit [Set_option_weak_authority, Init, Wrap_sys_device fd,
                  Stderr (''Error wrapping file descriptor: '' @ error_name e rc @ newline)]
              (out_label devh rc)
          else
            emit [Set_option_weak_authority, Init, Wrap_sys_device fd]
              (case snd (claim_loop e 0) of
                 Some rc \<Rightarrow> emit (fst (claim_loop e 0)) (out_label devh rc)
               | None \<Rightarrow> emit (fst (claim_loop e 0)) (configure fuel e devh)))"

text \<open>\<^verbatim>\<open>printf("usage: %s <fd>", argv[0]); exit(1);\<close>\<close>

definition usage :: "string list \<Rightarrow> run" where
  "usage argv =
     (case argv_at argv 0 of
        None \<Rightarrow> ([], Undefined)
      | Some prog \<Rightarrow> ([Stdout (''usage: '' @ prog @ '' <fd>'')], Exit 1))"

text \<open>
  \<^verbatim>\<open>if ((argc < 1) || (sscanf(argv[1], "%d", &fd) != 1)) { usage }\<close>, then the rest of
  main. \<open>argc\<close> is the length of \<open>argv\<close>.
\<close>

definition main :: "nat \<Rightarrow> env \<Rightarrow> string list \<Rightarrow> run" where
  "main fuel e argv =
     (if length argv < 1 then usage argv
      else
        (case argv_at argv 1 of
           None \<Rightarrow> ([], Undefined)
         | Some arg \<Rightarrow>
             (case sscanf_d arg of
                Scan_ok fd \<Rightarrow> main_body fuel e fd
              | Scan_overflow \<Rightarrow> ([], Undefined)
              | Scan_EOF \<Rightarrow> usage argv
              | Scan_mismatch \<Rightarrow> usage argv)))"

subsection \<open>Sample environments\<close>

text \<open>Names of some libusb error codes, as \<^verbatim>\<open>libusb_error_name\<close> gives them.\<close>

definition libusb_error_name :: "int \<Rightarrow> string" where
  "libusb_error_name rc =
     (if rc = - 1 then ''LIBUSB_ERROR_IO''
      else if rc = - 3 then ''LIBUSB_ERROR_ACCESS''
      else if rc = - 4 then ''LIBUSB_ERROR_NO_DEVICE''
      else if rc = - 6 then ''LIBUSB_ERROR_BUSY''
      else if rc = - 7 then ''LIBUSB_ERROR_TIMEOUT''
      else if rc = - 99 then ''LIBUSB_ERROR_OTHER''
      else ''**UNKNOWN**'')"

text \<open>A device that answers every call with success and sends one byte per read.\<close>

definition env_ok :: env where
  "env_ok = \<lparr> error_name = libusb_error_name, set_option_rc = 0, init_rc = 0,
     wrap_sys_device = (\<lambda>fd. (0, True)), kernel_driver_active = (\<lambda>i. 1),
     detach_kernel_driver = (\<lambda>i. 0), claim_interface = (\<lambda>i. 0),
     line_state_rc = 0, line_encoding_rc = 7,
     bulk_write = (\<lambda>i. 0), bulk_read = (\<lambda>i. (0, 1)), received_text = (\<lambda>i. ''A'') \<rparr>"

definition argv_ok :: "string list" where
  "argv_ok = [''usbtest'', ''7'']"

text \<open>The same device when one call fails.\<close>

definition env_init_fails :: env where
  "env_init_fails = env_ok \<lparr> init_rc := - 99 \<rparr>"

definition env_wrap_fails :: env where
  "env_wrap_fails = env_ok \<lparr> wrap_sys_device := (\<lambda>fd. (- 4, False)) \<rparr>"

definition env_claim_fails :: env where
  "env_claim_fails = env_ok \<lparr> claim_interface := (\<lambda>i. if i = 1 then - 6 else 0) \<rparr>"

definition env_line_state_fails :: env where
  "env_line_state_fails = env_ok \<lparr> line_state_rc := - 1 \<rparr>"

definition env_detach_fails :: env where
  "env_detach_fails = env_ok \<lparr> detach_kernel_driver := (\<lambda>i. - 5) \<rparr>"

definition env_read_timeout :: env where
  "env_read_timeout = env_ok \<lparr> bulk_read := (\<lambda>i. (- 7, 0)) \<rparr>"

subsection \<open>Vocabulary of the statements\<close>

fun is_control :: "event \<Rightarrow> bool" where
  "is_control (Control_transfer t r v x d l to) = True"
| "is_control ev = False"

fun is_bulk :: "event \<Rightarrow> bool" where
  "is_bulk (Bulk_write ep d to) = True"
| "is_bulk (Bulk_read ep n to) = True"
| "is_bulk ev = False"

fun is_claim :: "event \<Rightarrow> bool" where
  "is_claim (Claim_interface n) = True"
| "is_claim ev = False"

fun is_store :: "event \<Rightarrow> bool" where
  "is_store (Store_buf n) = True"
| "is_store ev = False"

fun is_usb_call :: "event \<Rightarrow> bool" where
  "is_usb_call (Stdout s) = False"
| "is_usb_call (Stderr s) = False"
| "is_usb_call (Store_buf n) = False"
| "is_usb_call (Sleep n) = False"
| "is_usb_call ev = True"

text \<open>The kinds of event an iteration of the transfer loop produces.\<close>

fun is_loop_event :: "event \<Rightarrow> bool" where
  "is_loop_event (Bulk_write ep d to) = True"
| "is_loop_event (Bulk_read ep n to) = True"
| "is_loop_event (Store_buf n) = True"
| "is_loop_event (Sleep n) = True"
| "is_loop_event (Stdout s) = True"
| "is_loop_event (Stderr s) = True"
| "is_loop_event ev = False"

fun is_pause :: "event \<Rightarrow> bool" where
  "is_pause (Sleep n) = True"
| "is_pause ev = False"

text \<open>The events of an iteration that are transfers or the pause.\<close>

definition is_transfer_or_pause :: "event \<Rightarrow> bool" where
  "is_transfer_or_pause ev = (is_bulk ev \<or> is_control ev \<or> is_pause ev)"

text \<open>
  The events of a run up to the claim of the second interface, when no call before the
  control transfers fails.
\<close>

definition claimed_events :: "env \<Rightarrow> int \<Rightarrow> event list" where
  "claimed_events e fd =
     [Set_option_weak_authority, Init, Wrap_sys_device fd] @
     detach_driver e 0 @ [Claim_interface 0] @ detach_driver e 1 @ [Claim_interface 1]"

text \<open>
  The layout of the line-encoding payload as the specification words it: the baud rate
  as a little-endian 32-bit number, then the stop-bits byte, the parity byte and the
  data-bits byte. In the CDC encoding the stop-bits byte 0 stands for one stop bit and
  the parity byte 0 for no parity.
\<close>

definition le32 :: "32 word \<Rightarrow> byte list" where
  "le32 w = [ucast w, ucast (drop_bit 8 w), ucast (drop_bit 16 w), ucast (drop_bit 24 w)]"

definition le32_value :: "byte list \<Rightarrow> nat" where
  "le32_value bs = foldr (\<lambda>b acc. unat b + 256 * acc) bs 0"

definition line_coding_spec :: "32 word \<Rightarrow> byte \<Rightarrow> byte \<Rightarrow> byte \<Rightarrow> byte list" where
  "line_coding_spec baud stop_bits parity data_bits = le32 baud @ [stop_bits, parity, data_bits]"

section \<open>Properties\<close>

subsection \<open>The loops, unrolled\<close>

lemma transfer_loop_unfold:
  "transfer_loop n e i devh rc = (concat (map (loop_body e) [i..<i + n]), Running)"
proof (induction n arbitrary: i)
  case 0
  show ?case by simp
next
  case (Suc n)
  have "[i..<i + Suc n] = i # [Suc i..<Suc i + n]"
    by (simp add: upt_rec)
  with Suc show ?case
    by (simp add: while_cond_def emit_def)
qed

lemma claim_loop_2: "claim_loop e 2 = ([], None)"
  by (subst claim_loop.simps) simp

lemma claim_loop_1:
  "claim_loop e 1 =
     (if claim_interface e 1 < 0 then
        (detach_driver e 1 @
         [Claim_interface 1,
          Stderr (''Error claiming interface: '' @ error_name e (claim_interface e 1) @ newline)],
         Some (claim_interface e 1))
      else (detach_driver e 1 @ [Claim_interface 1], None))"
  by (subst claim_loop.simps) (simp add: claim_loop_2 Let_def)

lemma claim_loop_0:
  "claim_loop e 0 =
     (if claim_interface e 0 < 0 then
        (detach_driver e 0 @
         [Claim_interface 0,
          Stderr (''Error claiming interface: '' @ error_name e (claim_interface e 0) @ newline)],
         Some (claim_interface e 0))
      else if claim_interface e 1 < 0 then
        (detach_driver e 0 @ [Claim_interface 0] @ detach_driver e 1 @
         [Claim_interface 1,
          Stderr (''Error claiming interface: '' @ error_name e (claim_interface e 1) @ newline)],
         Some (claim_interface e 1))
      else (detach_driver e 0 @ [Claim_interface 0] @ detach_driver e 1 @ [Claim_interface 1],
            None))"
  by (subst claim_loop.simps) (simp add: claim_loop_1 Let_def)

subsection \<open>Little-endian bytes\<close>

lemma split4:
  fixes n :: nat
  assumes "n < 4294967296"
  shows "n mod 256 + 256 * (n div 256 mod 256) + 65536 * (n div 65536 mod 256) +
         16777216 * (n div 16777216 mod 256) = n"
proof -
  have 1: "m = m mod 256 + 256 * (m div 256)" for m :: nat by simp
  have b: "n div 65536 = n div 256 div 256" by (simp add: div_mult2_eq)
  have c: "n div 16777216 = n div 256 div 256 div 256" by (simp add: div_mult2_eq)
  have d: "n div 16777216 mod 256 = n div 16777216" using assms by (simp add: less_mult_imp_div_less)
  show ?thesis
    unfolding d unfolding b c
    using 1 [of n] 1 [of "n div 256"] 1 [of "n div 256 div 256"] by linarith
qed

lemma unat_low_byte: "unat (ucast (w :: 32 word) :: 8 word) = unat w mod 256"
  by (simp add: unsigned_ucast_eq take_bit_eq_mod)

lemma unat_shifted: "unat (drop_bit k (w :: 32 word)) = unat w div 2 ^ k"
  unfolding unat_drop_bit_eq by (simp add: drop_bit_eq_div)

lemma le32_value_le32: "le32_value (le32 w) = unat w"
proof -
  have lt: "unat w < 4294967296"
    using unsigned_less [of w] by simp
  have "le32_value (le32 w) =
     unat w mod 256 + 256 * (unat w div 256 mod 256) + 65536 * (unat w div 65536 mod 256) +
         16777216 * (unat w div 16777216 mod 256)"
    unfolding le32_value_def le32_def
    by (simp add: unat_low_byte unat_shifted)
  also have "\<dots> = unat w"
    using lt by (rule split4)
  finally show ?thesis .
qed

subsection \<open>From main to its body\<close>

lemma main_cases_disj:
  "main fuel e argv = ([], Undefined) \<or>
   (\<exists>prog. main fuel e argv = ([Stdout (''usage: '' @ prog @ '' <fd>'')], Exit 1)) \<or>
   (\<exists>fd. \<forall>n. main n e argv = main_body n e fd)"
  unfolding main_def usage_def argv_at_def
  by (auto split: scan.splits option.splits)

lemma main_cases:
  obtains "main fuel e argv = ([], Undefined)"
  | prog where "main fuel e argv = ([Stdout (''usage: '' @ prog @ '' <fd>'')], Exit 1)"
  | fd where "\<And>n. main n e argv = main_body n e fd"
  using main_cases_disj [of fuel e argv] by blast

lemmas body_defs = main_body_def configure_def claim_loop_0 emit_def out_label_def
  transfer_loop_unfold Let_def detach_driver_def

lemma main_argv_ok: "main fuel e argv_ok = main_body fuel e 7"
  by (simp add: main_def argv_ok_def argv_at_def sscanf_d_def isspace_def isdigit_def dec_value_def)

lemmas loop_defs = loop_body_def read_chars_def write_char_def

lemmas transfer_defs = line_state_transfer_def line_encoding_transfer_def

lemma filter_concat_nil: "(\<And>x. filter P (f x) = []) \<Longrightarrow> filter P (concat (map f xs)) = []"
  by (induction xs) simp_all

lemma control_not_in_loop_body: "filter is_control (loop_body e i) = []"
  by (simp add: loop_defs Let_def)

lemma control_not_in_loop: "filter is_control (concat (map (loop_body e) xs)) = []"
  by (rule filter_concat_nil) (rule control_not_in_loop_body)

lemma body_controls:
  "filter is_control (fst (main_body fuel e fd)) = [] \<or>
   filter is_control (fst (main_body fuel e fd)) = [line_state_transfer] \<or>
   filter is_control (fst (main_body fuel e fd)) = [line_state_transfer, line_encoding_transfer]"
  by (simp add: body_defs control_not_in_loop transfer_defs)

lemma main_controls:
  "filter is_control (fst (main fuel e argv)) = [] \<or>
   filter is_control (fst (main fuel e argv)) = [line_state_transfer] \<or>
   filter is_control (fst (main fuel e argv)) = [line_state_transfer, line_encoding_transfer]"
proof (cases fuel e argv rule: main_cases)
  case (3 fd)
  then show ?thesis using body_controls [of fuel e fd] by simp
qed simp_all

lemma env_ok_run_0:
  "main 0 env_ok argv_ok =
    ([Set_option_weak_authority, Init, Wrap_sys_device 7,
      Kernel_driver_active 0, Detach_kernel_driver 0, Claim_interface 0,
      Kernel_driver_active 1, Detach_kernel_driver 1, Claim_interface 1,
      line_state_transfer, line_encoding_transfer], Running)"
  by (simp add: main_argv_ok body_defs env_ok_def)

lemma main_control_events:
  assumes "ev \<in> set (fst (main fuel e argv))" and "is_control ev"
  shows "ev = line_state_transfer \<or> ev = line_encoding_transfer"
proof -
  let ?cs = "filter is_control (fst (main fuel e argv))"
  from assms have mem: "ev \<in> set ?cs"
    by simp
  from main_controls [of fuel e argv]
  consider "?cs = []" | "?cs = [line_state_transfer]"
    | "?cs = [line_state_transfer, line_encoding_transfer]"
    by blast
  then show ?thesis
  proof cases
    case 1
    from mem show ?thesis unfolding 1 by simp
  next
    case 2
    from mem show ?thesis unfolding 2 by simp
  next
    case 3
    from mem show ?thesis unfolding 3 by simp
  qed
qed

lemma show_int_0: "show_int 0 = ''0''"
  by (simp add: show_int_def show_nat.simps [of 0] digit_char_def)

lemma env_read_timeout_run_1:
  "main 1 env_read_timeout argv_ok =
    ([Set_option_weak_authority, Init, Wrap_sys_device 7,
      Kernel_driver_active 0, Detach_kernel_driver 0, Claim_interface 0,
      Kernel_driver_active 1, Detach_kernel_driver 1, Claim_interface 1,
      line_state_transfer, line_encoding_transfer,
      Bulk_write 0x02 [0x74] 0, Bulk_read 0x82 64 1000,
      Stdout (''timeout (0)'' @ newline), Store_buf (- 1),
      Stdout (''Received: '' @ dquote @ ''A'' @ dquote @ newline), Sleep 1], Running)"
  by (simp add: main_argv_ok body_defs env_ok_def env_read_timeout_def loop_defs
      LIBUSB_ERROR_TIMEOUT_def ep_in_addr_def ep_out_addr_def show_int_0)

lemma store_index:
  "filter is_store (loop_body e i) =
     [Store_buf (if fst (bulk_read e i) < 0 then - 1 else snd (bulk_read e i))]"
  by (simp add: loop_defs Let_def LIBUSB_ERROR_TIMEOUT_def)

lemma usage_when_scan_fails:
  "sscanf_d arg = Scan_EOF \<or> sscanf_d arg = Scan_mismatch \<Longrightarrow>
   main fuel e (prog # arg # rest) = ([Stdout (''usage: '' @ prog @ '' <fd>'')], Exit 1)"
  by (auto simp: main_def usage_def argv_at_def)

subsection \<open>The stages of a run\<close>

lemma transfer_kinds:
  "is_control line_state_transfer" "is_control line_encoding_transfer"
  "\<not> is_bulk line_state_transfer" "\<not> is_bulk line_encoding_transfer"
  "\<not> is_claim line_state_transfer" "\<not> is_claim line_encoding_transfer"
  "line_state_transfer \<noteq> line_encoding_transfer"
  by (simp_all add: transfer_defs)

lemma detach_driver_kinds:
  "filter is_control (detach_driver e k) = []" "filter is_bulk (detach_driver e k) = []"
  "filter is_claim (detach_driver e k) = []"
  "Claim_interface j \<notin> set (detach_driver e k)"
  by (simp_all add: detach_driver_def)

lemma configure_cases:
  "configure fuel e devh =
     (if line_state_rc e < 0 then
        ([line_state_transfer,
          Stderr (''Error during control transfer: '' @ error_name e (line_state_rc e) @ newline)] @
         fst (out_label devh (line_state_rc e)), Exit (line_state_rc e))
      else if line_encoding_rc e < 0 then
        ([line_state_transfer, line_encoding_transfer,
          Stderr (''Error during control transfer: '' @ error_name e (line_encoding_rc e) @ newline)] @
         fst (out_label devh (line_encoding_rc e)), Exit (line_encoding_rc e))
      else ([line_state_transfer, line_encoding_transfer] @
            concat (map (loop_body e) [0..<fuel]), Running))"
  by (simp add: configure_def emit_def out_label_def transfer_loop_unfold Let_def)

lemma body_claimed:
  assumes "Claim_interface 1 \<in> set (fst (main_body fuel e fd))" and "0 \<le> claim_interface e 1"
  shows "main_body fuel e fd =
    (claimed_events e fd @ fst (configure fuel e (snd (wrap_sys_device e fd))),
     snd (configure fuel e (snd (wrap_sys_device e fd))))"
  using assms
  by (auto simp: main_body_def claim_loop_0 emit_def out_label_def Let_def claimed_events_def
      detach_driver_kinds split: if_splits)

lemma out_label_kinds:
  "filter is_control (fst (out_label devh rc)) = []" "filter is_bulk (fst (out_label devh rc)) = []"
  by (simp_all add: out_label_def)

lemma claimed_events_kinds:
  "filter is_control (claimed_events e fd) = []" "filter is_bulk (claimed_events e fd) = []"
  by (simp_all add: claimed_events_def detach_driver_kinds)

lemma main_claimed:
  assumes "Claim_interface 1 \<in> set (fst (main fuel e argv))" and "0 \<le> claim_interface e 1"
  obtains fd devh where
    "main fuel e argv = (claimed_events e fd @ fst (configure fuel e devh), snd (configure fuel e devh))"
proof (cases fuel e argv rule: main_cases)
  case 1
  with assms(1) show ?thesis by simp
next
  case (2 prog)
  with assms(1) show ?thesis by simp
next
  case (3 fd)
  from assms(1) have "Claim_interface 1 \<in> set (fst (main_body fuel e fd))"
    unfolding 3 .
  then have "main_body fuel e fd =
    (claimed_events e fd @ fst (configure fuel e (snd (wrap_sys_device e fd))),
     snd (configure fuel e (snd (wrap_sys_device e fd))))"
    using assms(2) by (rule body_claimed)
  then have "main fuel e argv =
    (claimed_events e fd @ fst (configure fuel e (snd (wrap_sys_device e fd))),
     snd (configure fuel e (snd (wrap_sys_device e fd))))"
    unfolding 3 .
  then show ?thesis by (rule that)
qed

lemma loop_body_events: "ev \<in> set (loop_body e i) \<Longrightarrow> is_loop_event ev"
  by (auto simp: loop_defs Let_def split: if_splits)

lemmas flat_defs = main_body_def claim_loop_0 configure_cases emit_def out_label_def Let_def
  detach_driver_def

lemma body_wrap_fails:
  assumes "Wrap_sys_device fd' \<in> set (fst (main_body fuel e fd))"
    and "fst (wrap_sys_device e fd') < 0"
  shows "snd (main_body fuel e fd) = Exit (fst (wrap_sys_device e fd')) \<and>
    filter is_claim (fst (main_body fuel e fd)) = [] \<and>
    filter is_control (fst (main_body fuel e fd)) = [] \<and>
    filter is_bulk (fst (main_body fuel e fd)) = []"
proof -
  from assms(1) have "fd' = fd"
    by (auto simp: flat_defs transfer_defs split: if_splits dest!: loop_body_events)
  with assms show ?thesis
    by (auto simp: flat_defs transfer_defs split: if_splits dest!: loop_body_events)
qed

lemma body_claim_fails:
  assumes "Claim_interface k \<in> set (fst (main_body fuel e fd))"
    and "claim_interface e k < 0"
  shows "snd (main_body fuel e fd) = Exit (claim_interface e k) \<and>
    filter is_control (fst (main_body fuel e fd)) = [] \<and>
    filter is_bulk (fst (main_body fuel e fd)) = []"
  using assms
  by (auto simp: flat_defs transfer_defs split: if_splits dest!: loop_body_events)

lemma body_set_option_fails:
  assumes "set_option_rc e < 0"
  shows "snd (main_body fuel e fd) = Exit 1 \<and>
    filter is_usb_call (fst (main_body fuel e fd)) = [Set_option_weak_authority]"
  using assms by (simp add: main_body_def)

lemma body_init_fails:
  assumes "Init \<in> set (fst (main_body fuel e fd))" and "init_rc e < 0"
  shows "snd (main_body fuel e fd) = Exit 1 \<and>
    filter is_usb_call (fst (main_body fuel e fd)) = [Set_option_weak_authority, Init]"
  using assms by (auto simp: main_body_def Let_def split: if_splits)

lemma loop_body_detach: "loop_body (e\<lparr>detach_kernel_driver := d\<rparr>) = loop_body e"
  by (rule ext) (simp add: loop_defs)

lemma body_detach_independent:
  "main_body fuel (e\<lparr>detach_kernel_driver := d\<rparr>) fd = main_body fuel e fd"
  by (simp add: flat_defs loop_body_detach)

lemma probe_in_detach_driver:
  "Kernel_driver_active j \<in> set (detach_driver e k) \<longleftrightarrow> j = k"
  by (auto simp: detach_driver_def)

lemma body_probe_index:
  "Kernel_driver_active k \<in> set (fst (main_body fuel e fd)) \<Longrightarrow> k = 0 \<or> k = 1"
  by (auto simp: flat_defs transfer_defs split: if_splits dest!: loop_body_events)

lemma body_probe_0:
  "Kernel_driver_active 0 \<in> set (fst (main_body fuel e fd)) \<Longrightarrow>
   \<exists>post. fst (main_body fuel e fd) =
     [Set_option_weak_authority, Init, Wrap_sys_device fd] @ detach_driver e 0 @
     Claim_interface 0 # post"
  by (auto simp: main_body_def claim_loop_0 emit_def out_label_def Let_def split: if_splits)

lemma body_probe_1:
  "Kernel_driver_active 1 \<in> set (fst (main_body fuel e fd)) \<Longrightarrow>
   \<exists>post. fst (main_body fuel e fd) =
     ([Set_option_weak_authority, Init, Wrap_sys_device fd] @ detach_driver e 0 @
      [Claim_interface 0]) @ detach_driver e 1 @ Claim_interface 1 # post"
  by (auto simp: main_body_def claim_loop_0 emit_def out_label_def Let_def probe_in_detach_driver
      split: if_splits)

lemma body_probe:
  assumes "Kernel_driver_active k \<in> set (fst (main_body fuel e fd))"
  shows "\<exists>pre post. fst (main_body fuel e fd) = pre @ detach_driver e k @ Claim_interface k # post"
proof -
  from assms have "k = 0 \<or> k = 1"
    by (rule body_probe_index)
  then show ?thesis
  proof
    assume "k = 0"
    with assms body_probe_0 [of fuel e fd] show ?thesis by blast
  next
    assume "k = 1"
    with assms body_probe_1 [of fuel e fd] show ?thesis by blast
  qed
qed

lemma body_claim_0_continues:
  assumes "Claim_interface 0 \<in> set (fst (main_body fuel e fd))" and "0 \<le> claim_interface e 0"
  shows "\<exists>pre post. fst (main_body fuel e fd) =
    pre @ Claim_interface 0 # Kernel_driver_active 1 # post"
proof -
  let ?pre = "[Set_option_weak_authority, Init, Wrap_sys_device fd] @ detach_driver e 0"
  from assms have "\<exists>post. fst (main_body fuel e fd) = ?pre @ Claim_interface 0 # detach_driver e 1 @ post"
    by (auto simp: main_body_def claim_loop_0 emit_def out_label_def Let_def split: if_splits)
  then obtain post where "fst (main_body fuel e fd) = ?pre @ Claim_interface 0 # detach_driver e 1 @ post"
    by blast
  moreover have "detach_driver e 1 @ post = Kernel_driver_active 1 # tl (detach_driver e 1) @ post"
    by (simp add: detach_driver_def)
  ultimately have "fst (main_body fuel e fd) =
      ?pre @ Claim_interface 0 # Kernel_driver_active 1 # tl (detach_driver e 1) @ post"
    by simp
  then show ?thesis by blast
qed

subsection \<open>The transfer loop and the exit status\<close>

lemma body_streaming:
  "snd (main_body 0 e fd) = Running \<Longrightarrow>
   main_body fuel e fd = (fst (main_body 0 e fd) @ concat (map (loop_body e) [0..<fuel]), Running)"
  by (auto simp: flat_defs split: if_splits)

lemma main_streaming:
  assumes "snd (main 0 e argv) = Running"
  shows "main fuel e argv = (fst (main 0 e argv) @ concat (map (loop_body e) [0..<fuel]), Running)"
proof (cases "0::nat" e argv rule: main_cases)
  case 1
  with assms show ?thesis by simp
next
  case (2 prog)
  with assms show ?thesis by simp
next
  case (3 fd)
  from assms show ?thesis unfolding 3 by (rule body_streaming)
qed

lemma transfers_in_loop_body:
  "filter is_transfer_or_pause (loop_body e i) =
     [Bulk_write 0x02 [0x74] 0, Bulk_read 0x82 64 1000, Sleep 1]"
  by (simp add: loop_defs Let_def is_transfer_or_pause_def ep_in_addr_def ep_out_addr_def)

lemma body_no_bulk_before_loop: "filter is_bulk (fst (main_body 0 e fd)) = []"
  by (simp add: flat_defs transfer_defs)

lemma main_no_bulk_before_loop: "filter is_bulk (fst (main 0 e argv)) = []"
proof (cases "0::nat" e argv rule: main_cases)
  case (3 fd)
  then show ?thesis by (simp add: body_no_bulk_before_loop)
qed simp_all

lemma timeout_is_logged:
  "fst (bulk_read e n) = LIBUSB_ERROR_TIMEOUT \<Longrightarrow>
   Stdout (''timeout ('' @ show_int (snd (bulk_read e n)) @ '')'' @ newline) \<in> set (loop_body e n)"
  by (simp add: loop_defs Let_def)

lemma read_error_is_logged:
  "fst (bulk_read e n) < 0 \<Longrightarrow> fst (bulk_read e n) \<noteq> LIBUSB_ERROR_TIMEOUT \<Longrightarrow>
   Stderr (''Error while waiting for char'' @ newline) \<in> set (loop_body e n)"
  by (simp add: loop_defs Let_def)

lemma write_error_is_logged:
  "bulk_write e n < 0 \<Longrightarrow> Stderr (''Error while sending char'' @ newline) \<in> set (loop_body e n)"
  by (simp add: loop_defs Let_def)

lemma loop_body_ends_with_pause: "last (loop_body e n) = Sleep 1"
  by (simp add: loop_defs Let_def)

lemma body_exit_status:
  "snd (main_body fuel e fd) =
     (if set_option_rc e < 0 then Exit 1
      else if init_rc e < 0 then Exit 1
      else if fst (wrap_sys_device e fd) < 0 then Exit (fst (wrap_sys_device e fd))
      else if claim_interface e 0 < 0 then Exit (claim_interface e 0)
      else if claim_interface e 1 < 0 then Exit (claim_interface e 1)
      else if line_state_rc e < 0 then Exit (line_state_rc e)
      else if line_encoding_rc e < 0 then Exit (line_encoding_rc e)
      else Running)"
  by (simp add: flat_defs)

lemma body_never_exits_0: "snd (main_body fuel e fd) \<noteq> Exit 0"
  by (simp add: body_exit_status)

lemma main_scan_ok:
  "sscanf_d arg = Scan_ok fd \<Longrightarrow> main fuel e (prog # arg # rest) = main_body fuel e fd"
  by (simp add: main_def argv_at_def)

lemma scan_7: "sscanf_d ''7'' = Scan_ok 7"
  by (simp add: sscanf_d_def isspace_def isdigit_def dec_value_def)

lemma scan_x: "sscanf_d ''x'' = Scan_mismatch"
  by (simp add: sscanf_d_def isspace_def isdigit_def)

lemma body_no_release: "Release_interface k \<notin> set (fst (main_body fuel e fd))"
  by (auto simp: flat_defs transfer_defs split: if_splits dest!: loop_body_events)

lemma body_close:
  "Close \<in> set (fst (main_body fuel e fd)) \<Longrightarrow> \<exists>rc<0. snd (main_body fuel e fd) = Exit rc"
  by (auto simp: flat_defs transfer_defs split: if_splits dest!: loop_body_events)

lemma bulk_in_loop_body:
  "filter is_bulk (loop_body e i) =
     [Bulk_write 0x02 [of_char CHR ''t''] 0, Bulk_read 0x82 64 1000]"
  by (simp add: loop_defs Let_def ep_in_addr_def ep_out_addr_def)

lemma loop_body_starts_with_write:
  "\<exists>post. loop_body e i = Bulk_write 0x02 [of_char CHR ''t''] 0 # post \<and>
     Bulk_read 0x82 64 1000 \<in> set post"
  by (simp add: loop_defs Let_def ep_in_addr_def ep_out_addr_def)

lemma timeout_line_follows_read:
  "fst (bulk_read e n) = LIBUSB_ERROR_TIMEOUT \<Longrightarrow>
   \<exists>pre post. loop_body e n =
     pre @ Bulk_read 0x82 64 1000 #
       Stdout (''timeout ('' @ show_int (snd (bulk_read e n)) @ '')'' @ newline) #
       Store_buf (- 1) # post"
proof -
  assume t: "fst (bulk_read e n) = LIBUSB_ERROR_TIMEOUT"
  have "loop_body e n = write_char e n (of_char CHR ''t'') @ Bulk_read 0x82 64 1000 #
       Stdout (''timeout ('' @ show_int (snd (bulk_read e n)) @ '')'' @ newline) #
       Store_buf (- 1) #
       [Stdout (''Received: '' @ dquote @ received_text e n @ dquote @ newline), Sleep 1]"
    using t by (simp add: loop_body_def read_chars_def Let_def ep_in_addr_def)
  then show ?thesis by blast
qed

lemma read_error_line_follows_read:
  "fst (bulk_read e n) < 0 \<Longrightarrow> fst (bulk_read e n) \<noteq> LIBUSB_ERROR_TIMEOUT \<Longrightarrow>
   \<exists>pre post. loop_body e n =
     pre @ Bulk_read 0x82 64 1000 # Stderr (''Error while waiting for char'' @ newline) #
       Store_buf (- 1) # post"
proof -
  assume t: "fst (bulk_read e n) < 0" "fst (bulk_read e n) \<noteq> LIBUSB_ERROR_TIMEOUT"
  have "loop_body e n = write_char e n (of_char CHR ''t'') @ Bulk_read 0x82 64 1000 #
       Stderr (''Error while waiting for char'' @ newline) #
       Store_buf (- 1) #
       [Stdout (''Received: '' @ dquote @ received_text e n @ dquote @ newline), Sleep 1]"
    using t by (simp add: loop_body_def read_chars_def Let_def ep_in_addr_def)
  then show ?thesis by blast
qed

lemma write_error_line_follows_write:
  "bulk_write e n < 0 \<Longrightarrow>
   \<exists>post. loop_body e n =
     Bulk_write 0x02 [of_char CHR ''t''] 0 # Stderr (''Error while sending char'' @ newline) #
       Bulk_read 0x82 64 1000 # post"
  by (simp add: loop_defs Let_def ep_in_addr_def ep_out_addr_def)

lemma body_trace_not_usage: "fst (main_body fuel e fd) \<noteq> [Stdout s]"
  by (simp add: main_body_def emit_def Let_def)

lemma main_step:
  assumes "snd (main 0 e argv) = Running"
  shows "fst (main (Suc n) e argv) = fst (main n e argv) @ loop_body e n"
  using main_streaming [OF assms, of n] main_streaming [OF assms, of "Suc n"]
  by simp

subsection \<open>Sample runs\<close>

lemma env_wrap_fails_run:
  "main fuel env_wrap_fails argv_ok =
    ([Set_option_weak_authority, Init, Wrap_sys_device 7,
      Stderr (''Error wrapping file descriptor: LIBUSB_ERROR_NO_DEVICE'' @ newline),
      Lib_exit], Exit (- 4))"
  by (simp add: main_argv_ok flat_defs env_ok_def env_wrap_fails_def libusb_error_name_def)

lemma env_claim_fails_run:
  "main fuel env_claim_fails argv_ok =
    ([Set_option_weak_authority, Init, Wrap_sys_device 7,
      Kernel_driver_active 0, Detach_kernel_driver 0, Claim_interface 0,
      Kernel_driver_active 1, Detach_kernel_driver 1, Claim_interface 1,
      Stderr (''Error claiming interface: LIBUSB_ERROR_BUSY'' @ newline),
      Close, Lib_exit], Exit (- 6))"
  by (simp add: main_argv_ok flat_defs env_ok_def env_claim_fails_def libusb_error_name_def)

lemma env_init_fails_run:
  "main fuel env_init_fails argv_ok =
    ([Set_option_weak_authority, Init,
      Stderr (''Error initializing libusb: LIBUSB_ERROR_OTHER'' @ newline)], Exit 1)"
  by (simp add: main_argv_ok flat_defs env_ok_def env_init_fails_def libusb_error_name_def)

lemma env_line_state_fails_run:
  "main fuel env_line_state_fails argv_ok =
    ([Set_option_weak_authority, Init, Wrap_sys_device 7,
      Kernel_driver_active 0, Detach_kernel_driver 0, Claim_interface 0,
      Kernel_driver_active 1, Detach_kernel_driver 1, Claim_interface 1,
      line_state_transfer,
      Stderr (''Error during control transfer: LIBUSB_ERROR_IO'' @ newline),
      Close, Lib_exit], Exit (- 1))"
  by (simp add: main_argv_ok flat_defs env_ok_def env_line_state_fails_def libusb_error_name_def)

subsection \<open>C1: the argument check\<close>

text \<open>
  C1. An invocation with a missing file-descriptor argument or a non-numeric first
  argument prints the usage message and exits with status 1 before any libusb call.
  The test in the source is \<^verbatim>\<open>argc < 1\<close>, not \<^verbatim>\<open>argc < 2\<close>: when the program is
  started with its name alone, \<open>argc\<close> is 1, the test is false and \<^verbatim>\<open>argv[1]\<close>, the null
  pointer, is given to \<^verbatim>\<open>sscanf\<close>. The run is undefined at that point: no usage
  message is printed and no exit status 1 is produced by the program. (For an argument
  that \<^verbatim>\<open>sscanf\<close> rejects the claim holds, see \<open>usage_when_scan_fails\<close>.)
\<close>

theorem missing_fd_argument_is_undefined:
  "main fuel e [prog] = ([], Undefined)"
  by (simp add: main_def argv_at_def)

subsection \<open>C2: the line-encoding transfer\<close>

text \<open>
  C2. The line-encoding control transfer has request type 0x21, request 0x20, value 0,
  index 0 and a payload of 7 bytes: the baud rate as a little-endian 32-bit number, then
  the stop-bits, parity and data-bits bytes. The bytes the program sends are those of
  115200 baud, one stop bit (code 0), no parity (code 0) and 8 data bits,
  00 C2 01 00 00 00 08. For every baud rate the first four bytes of the layout are
  its little-endian encoding (they read back as the rate); 9600 gives 80 25 00 00. In
  every run, a control transfer with request 0x20 is this transfer.
\<close>

theorem line_encoding_payload:
  "line_encoding_transfer =
     Control_transfer 0x21 0x20 0 0 (Some (line_coding_spec 115200 0 0 8)) 7 0 \<and>
   encoding = line_coding_spec 115200 0 0 8 \<and>
   line_coding_spec 115200 0 0 8 = [0x00, 0xC2, 0x01, 0x00, 0x00, 0x00, 0x08] \<and>
   take 4 (line_coding_spec baud stop_bits parity data_bits) = le32 baud \<and>
   drop 4 (line_coding_spec baud stop_bits parity data_bits) = [stop_bits, parity, data_bits] \<and>
   le32_value (le32 baud) = unat baud \<and>
   le32 9600 = [0x80, 0x25, 0x00, 0x00] \<and>
   (Control_transfer t 0x20 v x d l to \<in> set (fst (main fuel e argv)) \<longrightarrow>
    Control_transfer t 0x20 v x d l to = line_encoding_transfer)"
proof (intro conjI impI)
  show "line_encoding_transfer =
     Control_transfer 0x21 0x20 0 0 (Some (line_coding_spec 115200 0 0 8)) 7 0"
    by (simp add: line_encoding_transfer_def encoding_def line_coding_spec_def le32_def)
  show "encoding = line_coding_spec 115200 0 0 8"
    by (simp add: encoding_def line_coding_spec_def le32_def)
  show "line_coding_spec 115200 0 0 8 = [0x00, 0xC2, 0x01, 0x00, 0x00, 0x00, 0x08]"
    by (simp add: line_coding_spec_def le32_def)
  show "take 4 (line_coding_spec baud stop_bits parity data_bits) = le32 baud"
    by (simp add: line_coding_spec_def le32_def)
  show "drop 4 (line_coding_spec baud stop_bits parity data_bits) = [stop_bits, parity, data_bits]"
    by (simp add: line_coding_spec_def le32_def)
  show "le32_value (le32 baud) = unat baud"
    by (rule le32_value_le32)
  show "le32 9600 = [0x80, 0x25, 0x00, 0x00]"
    by (simp add: le32_def)
next
  let ?ev = "Control_transfer t 0x20 v x d l to"
  assume "?ev \<in> set (fst (main fuel e argv))"
  then have "?ev = line_state_transfer \<or> ?ev = line_encoding_transfer"
    by (rule main_control_events) simp
  moreover have "?ev \<noteq> line_state_transfer"
    by (simp add: line_state_transfer_def)
  ultimately show "?ev = line_encoding_transfer"
    by blast
qed

theorem line_encoding_payload_witness:
  "line_encoding_transfer \<in> set (fst (main 0 env_ok argv_ok)) \<and>
   line_encoding_transfer =
     Control_transfer 0x21 0x20 0 0 (Some [0x00, 0xC2, 0x01, 0x00, 0x00, 0x00, 0x08]) 7 0 \<and>
   le32_value (le32 115200) = 115200"
proof -
  have mem: "Control_transfer 0x21 0x20 0 0 (Some encoding) 7 0 \<in> set (fst (main 0 env_ok argv_ok))"
    unfolding env_ok_run_0 by (simp add: line_encoding_transfer_def encoding_def)
  have eq: "line_encoding_transfer = Control_transfer 0x21 0x20 0 0 (Some encoding) 7 0"
    by (simp add: line_encoding_transfer_def encoding_def)
  from line_encoding_payload [of 115200 0 0 8 "0x21" 0 0 "Some encoding" 7 0 0 env_ok argv_ok] mem
  have "le32_value (le32 115200) = unat (115200 :: 32 word)"
    by blast
  with mem eq show ?thesis
    by (simp add: encoding_def)
qed

subsection \<open>C3: the two control transfers\<close>

text \<open>
  C3. Once both interfaces are claimed, the run issues the control transfers in this
  order: the line-state transfer (request type 0x21, request 0x22, value
  DTR | RTS = 0x03, index 0, no data, timeout 0) directly after the claim of interface 1,
  then the line-encoding transfer (timeout 0 as well). A negative return of the first
  ends the run with that code after the error line, before the second transfer; a
  negative return of the second ends it the same way before any bulk transfer; when
  both returns are non-negative the run goes on into the transfer loop.
\<close>

theorem control_transfers_after_claim:
  assumes "Claim_interface 1 \<in> set (fst (main fuel e argv))" and "0 \<le> claim_interface e 1"
  shows "line_state_transfer = Control_transfer 0x21 0x22 0x03 0 None 0 0 \<and>
    ACM_CTRL_DTR OR ACM_CTRL_RTS = 0x03 \<and>
    line_encoding_transfer = Control_transfer 0x21 0x20 0 0 (Some encoding) 7 0 \<and>
    (\<exists>pre post. fst (main fuel e argv) = pre @ Claim_interface 1 # line_state_transfer # post \<and>
       filter is_control pre = [] \<and> filter is_bulk pre = []) \<and>
    (line_state_rc e < 0 \<longrightarrow>
       filter is_control (fst (main fuel e argv)) = [line_state_transfer] \<and>
       filter is_bulk (fst (main fuel e argv)) = [] \<and>
       Stderr (''Error during control transfer: '' @ error_name e (line_state_rc e) @ newline)
         \<in> set (fst (main fuel e argv)) \<and>
       snd (main fuel e argv) = Exit (line_state_rc e)) \<and>
    (0 \<le> line_state_rc e \<and> line_encoding_rc e < 0 \<longrightarrow>
       filter is_control (fst (main fuel e argv)) = [line_state_transfer, line_encoding_transfer] \<and>
       filter is_bulk (fst (main fuel e argv)) = [] \<and>
       Stderr (''Error during control transfer: '' @ error_name e (line_encoding_rc e) @ newline)
         \<in> set (fst (main fuel e argv)) \<and>
       snd (main fuel e argv) = Exit (line_encoding_rc e)) \<and>
    (0 \<le> line_state_rc e \<and> 0 \<le> line_encoding_rc e \<longrightarrow>
       filter is_control (fst (main fuel e argv)) = [line_state_transfer, line_encoding_transfer] \<and>
       (\<exists>pre. fst (main fuel e argv) =
          pre @ line_state_transfer # line_encoding_transfer # concat (map (loop_body e) [0..<fuel])) \<and>
       snd (main fuel e argv) = Running)"
proof -
  from assms obtain fd devh where run:
    "main fuel e argv = (claimed_events e fd @ fst (configure fuel e devh), snd (configure fuel e devh))"
    by (rule main_claimed)
  have shape: "line_state_transfer = Control_transfer 0x21 0x22 0x03 0 None 0 0"
    "ACM_CTRL_DTR OR ACM_CTRL_RTS = 0x03"
    "line_encoding_transfer = Control_transfer 0x21 0x20 0 0 (Some encoding) 7 0"
    by (simp_all add: transfer_defs ACM_CTRL_DTR_def ACM_CTRL_RTS_def encoding_def)
  have first: "\<exists>pre post. fst (main fuel e argv) = pre @ Claim_interface 1 # line_state_transfer # post \<and>
       filter is_control pre = [] \<and> filter is_bulk pre = []"
  proof -
    let ?pre = "[Set_option_weak_authority, Init, Wrap_sys_device fd] @
       detach_driver e 0 @ [Claim_interface 0] @ detach_driver e 1"
    have "fst (main fuel e argv) = ?pre @ Claim_interface 1 # line_state_transfer # tl (fst (configure fuel e devh))"
      unfolding run by (simp add: claimed_events_def configure_cases)
    moreover have "filter is_control ?pre = []" "filter is_bulk ?pre = []"
      by (simp_all add: detach_driver_kinds)
    ultimately show ?thesis by blast
  qed
  have ls: "filter is_control (fst (main fuel e argv)) = [line_state_transfer] \<and>
       filter is_bulk (fst (main fuel e argv)) = [] \<and>
       Stderr (''Error during control transfer: '' @ error_name e (line_state_rc e) @ newline)
         \<in> set (fst (main fuel e argv)) \<and>
       snd (main fuel e argv) = Exit (line_state_rc e)" if "line_state_rc e < 0"
    unfolding run using that
    by (simp add: configure_cases claimed_events_kinds out_label_kinds transfer_kinds)
  have le: "filter is_control (fst (main fuel e argv)) = [line_state_transfer, line_encoding_transfer] \<and>
       filter is_bulk (fst (main fuel e argv)) = [] \<and>
       Stderr (''Error during control transfer: '' @ error_name e (line_encoding_rc e) @ newline)
         \<in> set (fst (main fuel e argv)) \<and>
       snd (main fuel e argv) = Exit (line_encoding_rc e)"
    if "0 \<le> line_state_rc e \<and> line_encoding_rc e < 0"
    unfolding run using that
    by (simp add: configure_cases claimed_events_kinds out_label_kinds transfer_kinds)
  have ok: "filter is_control (fst (main fuel e argv)) = [line_state_transfer, line_encoding_transfer] \<and>
       (\<exists>pre. fst (main fuel e argv) =
          pre @ line_state_transfer # line_encoding_transfer # concat (map (loop_body e) [0..<fuel])) \<and>
       snd (main fuel e argv) = Running"
    if "0 \<le> line_state_rc e \<and> 0 \<le> line_encoding_rc e"
    unfolding run using that
    by (simp add: configure_cases claimed_events_kinds transfer_kinds control_not_in_loop)
  from shape first ls le ok show ?thesis
    by blast
qed

theorem control_transfers_after_claim_witness:
  "Claim_interface 1 \<in> set (fst (main 0 env_ok argv_ok)) \<and>
   0 \<le> claim_interface env_ok 1 \<and>
   filter is_control (fst (main 0 env_ok argv_ok)) =
     [Control_transfer 0x21 0x22 0x03 0 None 0 0,
      Control_transfer 0x21 0x20 0 0 (Some [0x00, 0xC2, 0x01, 0x00, 0x00, 0x00, 0x08]) 7 0] \<and>
   snd (main 0 env_ok argv_ok) = Running \<and>
   Claim_interface 1 \<in> set (fst (main 0 env_line_state_fails argv_ok)) \<and>
   0 \<le> claim_interface env_line_state_fails 1 \<and>
   filter is_control (fst (main 0 env_line_state_fails argv_ok)) =
     [Control_transfer 0x21 0x22 0x03 0 None 0 0] \<and>
   snd (main 0 env_line_state_fails argv_ok) = Exit (- 1)"
proof -
  have a1: "Claim_interface 1 \<in> set (fst (main 0 env_ok argv_ok))"
    unfolding env_ok_run_0 by simp
  have a2: "0 \<le> claim_interface env_ok 1"
    by (simp add: env_ok_def)
  have a3: "0 \<le> line_state_rc env_ok \<and> 0 \<le> line_encoding_rc env_ok"
    by (simp add: env_ok_def)
  have b1: "Claim_interface 1 \<in> set (fst (main 0 env_line_state_fails argv_ok))"
    unfolding env_line_state_fails_run by simp
  have b2: "0 \<le> claim_interface env_line_state_fails 1"
    by (simp add: env_line_state_fails_def env_ok_def)
  have b3: "line_state_rc env_line_state_fails = - 1"
    by (simp add: env_line_state_fails_def env_ok_def)
  from control_transfers_after_claim [OF a1 a2] a3
  have "filter is_control (fst (main 0 env_ok argv_ok)) =
     [Control_transfer 0x21 0x22 0x03 0 None 0 0,
      Control_transfer 0x21 0x20 0 0 (Some encoding) 7 0] \<and>
     snd (main 0 env_ok argv_ok) = Running"
    by simp
  moreover from control_transfers_after_claim [OF b1 b2] b3
  have "filter is_control (fst (main 0 env_line_state_fails argv_ok)) =
     [Control_transfer 0x21 0x22 0x03 0 None 0 0] \<and>
     snd (main 0 env_line_state_fails argv_ok) = Exit (- 1)"
    by simp
  ultimately show ?thesis
    using a1 a2 b1 b2 by (simp add: encoding_def)
qed

subsection \<open>C4: a failed setup step ends the run\<close>

text \<open>
  C4. When wrapping the file descriptor fails, the run ends with the (negative, hence
  non-zero) return code of the call and contains no interface claim and no control or
  bulk transfer. When the claim of an interface fails, the run ends with the claim's
  return code and contains no control or bulk transfer. Likewise a failure of
  \<^verbatim>\<open>libusb_set_option\<close> or \<^verbatim>\<open>libusb_init\<close> ends the run with status 1 and no later
  library call.
\<close>

theorem setup_failure_stops_the_run:
  "(Wrap_sys_device fd \<in> set (fst (main fuel e argv)) \<and> fst (wrap_sys_device e fd) < 0 \<longrightarrow>
      snd (main fuel e argv) = Exit (fst (wrap_sys_device e fd)) \<and>
      fst (wrap_sys_device e fd) \<noteq> 0 \<and>
      filter is_claim (fst (main fuel e argv)) = [] \<and>
      filter is_control (fst (main fuel e argv)) = [] \<and>
      filter is_bulk (fst (main fuel e argv)) = []) \<and>
   (Claim_interface k \<in> set (fst (main fuel e argv)) \<and> claim_interface e k < 0 \<longrightarrow>
      snd (main fuel e argv) = Exit (claim_interface e k) \<and>
      filter is_control (fst (main fuel e argv)) = [] \<and>
      filter is_bulk (fst (main fuel e argv)) = []) \<and>
   (Set_option_weak_authority \<in> set (fst (main fuel e argv)) \<and> set_option_rc e < 0 \<longrightarrow>
      snd (main fuel e argv) = Exit 1 \<and>
      filter is_usb_call (fst (main fuel e argv)) = [Set_option_weak_authority]) \<and>
   (Init \<in> set (fst (main fuel e argv)) \<and> init_rc e < 0 \<longrightarrow>
      snd (main fuel e argv) = Exit 1 \<and>
      filter is_usb_call (fst (main fuel e argv)) = [Set_option_weak_authority, Init])"
proof (cases fuel e argv rule: main_cases)
  case 1
  then show ?thesis by simp
next
  case (2 prog)
  then show ?thesis by simp
next
  case (3 fd0)
  show ?thesis
    unfolding 3
    using body_wrap_fails [of fd fuel e fd0] body_claim_fails [of k fuel e fd0]
      body_set_option_fails [of e fuel fd0] body_init_fails [of fuel e fd0]
    by auto
qed

theorem setup_failure_stops_the_run_witness:
  "Wrap_sys_device 7 \<in> set (fst (main 1 env_wrap_fails argv_ok)) \<and>
   fst (wrap_sys_device env_wrap_fails 7) < 0 \<and>
   snd (main 1 env_wrap_fails argv_ok) = Exit (- 4) \<and>
   filter is_claim (fst (main 1 env_wrap_fails argv_ok)) = [] \<and>
   filter is_control (fst (main 1 env_wrap_fails argv_ok)) = [] \<and>
   filter is_bulk (fst (main 1 env_wrap_fails argv_ok)) = [] \<and>
   Claim_interface 1 \<in> set (fst (main 1 env_claim_fails argv_ok)) \<and>
   claim_interface env_claim_fails 1 < 0 \<and>
   snd (main 1 env_claim_fails argv_ok) = Exit (- 6) \<and>
   filter is_control (fst (main 1 env_claim_fails argv_ok)) = [] \<and>
   filter is_bulk (fst (main 1 env_claim_fails argv_ok)) = []"
proof -
  have a1: "Wrap_sys_device 7 \<in> set (fst (main 1 env_wrap_fails argv_ok))"
    unfolding env_wrap_fails_run by simp
  have a2: "fst (wrap_sys_device env_wrap_fails 7) = - 4"
    by (simp add: env_wrap_fails_def env_ok_def)
  have b1: "Claim_interface 1 \<in> set (fst (main 1 env_claim_fails argv_ok))"
    unfolding env_claim_fails_run by simp
  have b2: "claim_interface env_claim_fails 1 = - 6"
    by (simp add: env_claim_fails_def env_ok_def)
  from setup_failure_stops_the_run [of 7 1 env_wrap_fails argv_ok 1] a1 a2
  have "snd (main 1 env_wrap_fails argv_ok) = Exit (- 4) \<and>
   filter is_claim (fst (main 1 env_wrap_fails argv_ok)) = [] \<and>
   filter is_control (fst (main 1 env_wrap_fails argv_ok)) = [] \<and>
   filter is_bulk (fst (main 1 env_wrap_fails argv_ok)) = []"
    by simp
  moreover from setup_failure_stops_the_run [of 7 1 env_claim_fails argv_ok 1] b1 b2
  have "snd (main 1 env_claim_fails argv_ok) = Exit (- 6) \<and>
   filter is_control (fst (main 1 env_claim_fails argv_ok)) = [] \<and>
   filter is_bulk (fst (main 1 env_claim_fails argv_ok)) = []"
    by simp
  ultimately show ?thesis
    using a1 a2 b1 b2 by simp
qed

subsection \<open>C5: the detach call is not checked\<close>

text \<open>
  C5. For each of the two interfaces the result of the kernel-driver detach call is not
  looked at: a run is the same whatever the detach calls return, and the probe (with or
  without the detach call) is always followed by the claim call for that interface.
  After a claim with a non-negative result the run goes on (to the probe of interface 1,
  or to the line-state transfer); a negative result of the claim ends the run with that
  code.
\<close>

theorem detach_result_is_ignored:
  "main fuel (e\<lparr>detach_kernel_driver := d\<rparr>) argv = main fuel e argv \<and>
   (Kernel_driver_active k \<in> set (fst (main fuel e argv)) \<longrightarrow>
      (\<exists>pre post. fst (main fuel e argv) = pre @ detach_driver e k @ Claim_interface k # post)) \<and>
   (Claim_interface 0 \<in> set (fst (main fuel e argv)) \<and> 0 \<le> claim_interface e 0 \<longrightarrow>
      (\<exists>pre post. fst (main fuel e argv) =
         pre @ Claim_interface 0 # Kernel_driver_active 1 # post)) \<and>
   (Claim_interface 1 \<in> set (fst (main fuel e argv)) \<and> 0 \<le> claim_interface e 1 \<longrightarrow>
      (\<exists>pre post. fst (main fuel e argv) =
         pre @ Claim_interface 1 # line_state_transfer # post)) \<and>
   (Claim_interface k \<in> set (fst (main fuel e argv)) \<and> claim_interface e k < 0 \<longrightarrow>
      snd (main fuel e argv) = Exit (claim_interface e k))"
proof (intro conjI impI)
  show "main fuel (e\<lparr>detach_kernel_driver := d\<rparr>) argv = main fuel e argv"
    by (simp add: main_def body_detach_independent split: option.splits scan.splits)
next
  assume a: "Kernel_driver_active k \<in> set (fst (main fuel e argv))"
  show "\<exists>pre post. fst (main fuel e argv) = pre @ detach_driver e k @ Claim_interface k # post"
  proof (cases fuel e argv rule: main_cases)
    case 1
    with a show ?thesis by simp
  next
    case (2 prog)
    with a show ?thesis by simp
  next
    case (3 fd)
    from a show ?thesis unfolding 3 by (rule body_probe)
  qed
next
  assume a: "Claim_interface 0 \<in> set (fst (main fuel e argv)) \<and> 0 \<le> claim_interface e 0"
  show "\<exists>pre post. fst (main fuel e argv) = pre @ Claim_interface 0 # Kernel_driver_active 1 # post"
  proof (cases fuel e argv rule: main_cases)
    case 1
    with a show ?thesis by simp
  next
    case (2 prog)
    with a show ?thesis by simp
  next
    case (3 fd)
    from a show ?thesis unfolding 3 by (blast intro: body_claim_0_continues)
  qed
next
  assume a: "Claim_interface 1 \<in> set (fst (main fuel e argv)) \<and> 0 \<le> claim_interface e 1"
  then obtain fd devh where run:
    "main fuel e argv = (claimed_events e fd @ fst (configure fuel e devh), snd (configure fuel e devh))"
    by (blast elim: main_claimed)
  let ?pre = "[Set_option_weak_authority, Init, Wrap_sys_device fd] @
       detach_driver e 0 @ [Claim_interface 0] @ detach_driver e 1"
  have "fst (main fuel e argv) =
      ?pre @ Claim_interface 1 # line_state_transfer # tl (fst (configure fuel e devh))"
    unfolding run by (simp add: claimed_events_def configure_cases)
  then show "\<exists>pre post. fst (main fuel e argv) = pre @ Claim_interface 1 # line_state_transfer # post"
    by blast
next
  assume a: "Claim_interface k \<in> set (fst (main fuel e argv)) \<and> claim_interface e k < 0"
  show "snd (main fuel e argv) = Exit (claim_interface e k)"
  proof (cases fuel e argv rule: main_cases)
    case 1
    with a show ?thesis by simp
  next
    case (2 prog)
    with a show ?thesis by simp
  next
    case (3 fd)
    from a show ?thesis unfolding 3 by (simp add: body_claim_fails)
  qed
qed

theorem detach_result_is_ignored_witness:
  "main 0 env_detach_fails argv_ok = main 0 env_ok argv_ok \<and>
   Kernel_driver_active 1 \<in> set (fst (main 0 env_detach_fails argv_ok)) \<and>
   Claim_interface 1 \<in> set (fst (main 0 env_detach_fails argv_ok)) \<and>
   detach_kernel_driver env_detach_fails 1 < 0 \<and>
   snd (main 0 env_detach_fails argv_ok) = Running \<and>
   Claim_interface 1 \<in> set (fst (main 0 env_claim_fails argv_ok)) \<and>
   claim_interface env_claim_fails 1 < 0 \<and>
   snd (main 0 env_claim_fails argv_ok) = Exit (- 6)"
proof -
  have same: "main 0 env_detach_fails argv_ok = main 0 env_ok argv_ok"
    unfolding env_detach_fails_def
    using detach_result_is_ignored [where fuel = 0 and e = env_ok and d = "\<lambda>i. - 5"
        and argv = argv_ok and k = 1] by blast
  have b1: "Claim_interface 1 \<in> set (fst (main 0 env_claim_fails argv_ok))"
    unfolding env_claim_fails_run by simp
  have b2: "claim_interface env_claim_fails 1 = - 6"
    by (simp add: env_claim_fails_def env_ok_def)
  from detach_result_is_ignored [where fuel = 0 and e = env_claim_fails and d = "\<lambda>i. 0"
        and argv = argv_ok and k = 1] b1 b2
  have "snd (main 0 env_claim_fails argv_ok) = Exit (- 6)"
    by simp
  moreover have "detach_kernel_driver env_detach_fails 1 < 0"
    by (simp add: env_detach_fails_def)
  ultimately show ?thesis
    using b1 b2 unfolding same env_ok_run_0 by simp
qed

subsection \<open>C6: transfer errors inside the loop\<close>

text \<open>
  C6. Once the loop is reached, a run never ends, whatever the bulk transfers return:
  after any number of iterations it is still running, and iteration \<open>n\<close> adds exactly
  the events of the loop body, which always ends with the pause. Every iteration makes
  the bulk write of 't' and then the bulk read. A read that times out is directly
  followed by the timeout line on standard output, any other negative read result by
  its error line on standard error, a negative write result by its error line and then
  the read. Whatever iteration \<open>n\<close> returned, the run goes on with the next cycle: the
  bulk write of iteration \<open>n + 1\<close> and, after it, its bulk read. (The store
  \<^verbatim>\<open>buf[len] = 0\<close> of an iteration with a failed read is an event of the run, see C10;
  its effect on memory is not part of the model.)
\<close>

theorem transfer_errors_do_not_end_the_loop:
  assumes "snd (main 0 e argv) = Running"
  shows "snd (main fuel e argv) = Running \<and>
    fst (main (Suc n) e argv) = fst (main n e argv) @ loop_body e n \<and>
    last (loop_body e n) = Sleep 1 \<and>
    (fst (bulk_read e n) = LIBUSB_ERROR_TIMEOUT \<longrightarrow>
       Stdout (''timeout ('' @ show_int (snd (bulk_read e n)) @ '')'' @ newline)
         \<in> set (loop_body e n)) \<and>
    (fst (bulk_read e n) < 0 \<and> fst (bulk_read e n) \<noteq> LIBUSB_ERROR_TIMEOUT \<longrightarrow>
       Stderr (''Error while waiting for char'' @ newline) \<in> set (loop_body e n)) \<and>
    (bulk_write e n < 0 \<longrightarrow>
       Stderr (''Error while sending char'' @ newline) \<in> set (loop_body e n)) \<and>
    filter is_bulk (loop_body e n) =
      [Bulk_write 0x02 [of_char CHR ''t''] 0, Bulk_read 0x82 64 1000] \<and>
    (fst (bulk_read e n) = LIBUSB_ERROR_TIMEOUT \<longrightarrow>
       (\<exists>pre post. loop_body e n =
          pre @ Bulk_read 0x82 64 1000 #
            Stdout (''timeout ('' @ show_int (snd (bulk_read e n)) @ '')'' @ newline) #
            Store_buf (- 1) # post)) \<and>
    (fst (bulk_read e n) < 0 \<and> fst (bulk_read e n) \<noteq> LIBUSB_ERROR_TIMEOUT \<longrightarrow>
       (\<exists>pre post. loop_body e n =
          pre @ Bulk_read 0x82 64 1000 # Stderr (''Error while waiting for char'' @ newline) #
            Store_buf (- 1) # post)) \<and>
    (bulk_write e n < 0 \<longrightarrow>
       (\<exists>post. loop_body e n =
          Bulk_write 0x02 [of_char CHR ''t''] 0 #
            Stderr (''Error while sending char'' @ newline) #
            Bulk_read 0x82 64 1000 # post)) \<and>
    (\<exists>post. fst (main (Suc (Suc n)) e argv) =
         fst (main n e argv) @ loop_body e n @ Bulk_write 0x02 [of_char CHR ''t''] 0 # post \<and>
       Bulk_read 0x82 64 1000 \<in> set post) \<and>
    snd (main (Suc (Suc n)) e argv) = Running"
proof -
  have running: "snd (main k e argv) = Running" for k
    using main_streaming [OF assms, of k] by simp
  have step: "fst (main (Suc k) e argv) = fst (main k e argv) @ loop_body e k" for k
    using assms by (rule main_step)
  have next_cycle: "\<exists>post. fst (main (Suc (Suc n)) e argv) =
         fst (main n e argv) @ loop_body e n @ Bulk_write 0x02 [of_char CHR ''t''] 0 # post \<and>
       Bulk_read 0x82 64 1000 \<in> set post"
  proof -
    from loop_body_starts_with_write [of e "Suc n"] obtain post where
      post: "loop_body e (Suc n) = Bulk_write 0x02 [of_char CHR ''t''] 0 # post"
        "Bulk_read 0x82 64 1000 \<in> set post"
      by blast
    have "fst (main (Suc (Suc n)) e argv) =
        fst (main n e argv) @ loop_body e n @ loop_body e (Suc n)"
      by (simp add: step [of "Suc n"] step [of n])
    with post show ?thesis
      by simp
  qed
  have logged:
    "fst (bulk_read e n) = LIBUSB_ERROR_TIMEOUT \<longrightarrow>
       Stdout (''timeout ('' @ show_int (snd (bulk_read e n)) @ '')'' @ newline)
         \<in> set (loop_body e n)"
    "fst (bulk_read e n) < 0 \<and> fst (bulk_read e n) \<noteq> LIBUSB_ERROR_TIMEOUT \<longrightarrow>
       Stderr (''Error while waiting for char'' @ newline) \<in> set (loop_body e n)"
    "bulk_write e n < 0 \<longrightarrow>
       Stderr (''Error while sending char'' @ newline) \<in> set (loop_body e n)"
    using timeout_is_logged [of e n] read_error_is_logged [of e n] write_error_is_logged [of e n]
    by blast+
  have placed:
    "fst (bulk_read e n) = LIBUSB_ERROR_TIMEOUT \<longrightarrow>
       (\<exists>pre post. loop_body e n =
          pre @ Bulk_read 0x82 64 1000 #
            Stdout (''timeout ('' @ show_int (snd (bulk_read e n)) @ '')'' @ newline) #
            Store_buf (- 1) # post)"
    "fst (bulk_read e n) < 0 \<and> fst (bulk_read e n) \<noteq> LIBUSB_ERROR_TIMEOUT \<longrightarrow>
       (\<exists>pre post. loop_body e n =
          pre @ Bulk_read 0x82 64 1000 # Stderr (''Error while waiting for char'' @ newline) #
            Store_buf (- 1) # post)"
    "bulk_write e n < 0 \<longrightarrow>
       (\<exists>post. loop_body e n =
          Bulk_write 0x02 [of_char CHR ''t''] 0 #
            Stderr (''Error while sending char'' @ newline) #
            Bulk_read 0x82 64 1000 # post)"
    using timeout_line_follows_read [of e n] read_error_line_follows_read [of e n]
      write_error_line_follows_write [of e n]
    by blast+
  from running [of fuel] running [of "Suc (Suc n)"] step [of n]
    loop_body_ends_with_pause [of e n] bulk_in_loop_body [of e n] logged placed next_cycle
  show ?thesis
    by (intro conjI)
qed

theorem transfer_errors_do_not_end_the_loop_witness:
  "snd (main 0 env_read_timeout argv_ok) = Running \<and>
   fst (bulk_read env_read_timeout 0) = LIBUSB_ERROR_TIMEOUT \<and>
   snd (main 5 env_read_timeout argv_ok) = Running \<and>
   Stdout (''timeout (0)'' @ newline) \<in> set (loop_body env_read_timeout 0) \<and>
   fst (main 2 env_read_timeout argv_ok) =
     fst (main 1 env_read_timeout argv_ok) @ loop_body env_read_timeout 1 \<and>
   filter is_bulk (loop_body env_read_timeout 1) =
     [Bulk_write 0x02 [0x74] 0, Bulk_read 0x82 64 1000] \<and>
   (\<exists>post. fst (main 2 env_read_timeout argv_ok) =
      fst (main 0 env_read_timeout argv_ok) @ loop_body env_read_timeout 0 @
        Bulk_write 0x02 [0x74] 0 # post \<and>
      Bulk_read 0x82 64 1000 \<in> set post)"
proof -
  have a: "snd (main 0 env_read_timeout argv_ok) = Running"
    by (simp add: main_argv_ok flat_defs env_read_timeout_def env_ok_def)
  have b: "fst (bulk_read env_read_timeout 0) = LIBUSB_ERROR_TIMEOUT"
    "snd (bulk_read env_read_timeout 0) = 0"
    by (simp_all add: env_read_timeout_def env_ok_def LIBUSB_ERROR_TIMEOUT_def)
  have two: "2 = Suc 1" "2 = Suc (Suc 0)"
    by simp_all
  from transfer_errors_do_not_end_the_loop [OF a, of 5 0] b
  have "snd (main 5 env_read_timeout argv_ok) = Running \<and>
     Stdout (''timeout (0)'' @ newline) \<in> set (loop_body env_read_timeout 0)"
    by (simp add: show_int_0)
  moreover from transfer_errors_do_not_end_the_loop [OF a, of 0 1]
  have "fst (main 2 env_read_timeout argv_ok) =
     fst (main 1 env_read_timeout argv_ok) @ loop_body env_read_timeout 1 \<and>
     filter is_bulk (loop_body env_read_timeout 1) =
       [Bulk_write 0x02 [0x74] 0, Bulk_read 0x82 64 1000]"
    unfolding two(1) by simp
  moreover from transfer_errors_do_not_end_the_loop [OF a, of 0 0]
  have "\<exists>post. fst (main 2 env_read_timeout argv_ok) =
      fst (main 0 env_read_timeout argv_ok) @ loop_body env_read_timeout 0 @
        Bulk_write 0x02 [0x74] 0 # post \<and>
      Bulk_read 0x82 64 1000 \<in> set post"
    unfolding two(2) by simp
  ultimately show ?thesis
    using a b by simp
qed

subsection \<open>C7: the exit status\<close>

text \<open>
  C7, as stated: the exit status is 0 on a clean exit, 1 on a usage error, and on every
  setup failure (library initialisation, wrapping, claiming, control transfer) the
  library's error code. This fails for the library initialisation: when
  \<^verbatim>\<open>libusb_init\<close> returns -99 the program calls \<^verbatim>\<open>exit(1)\<close>.
\<close>

theorem init_failure_exits_with_1:
  "init_rc env_init_fails = - 99 \<and>
   snd (main 1 env_init_fails argv_ok) = Exit 1 \<and>
   snd (main 1 env_init_fails argv_ok) \<noteq> Exit (init_rc env_init_fails)"
  unfolding env_init_fails_run by (simp add: env_init_fails_def)

text \<open>
  C7, amended: the exit status is 1 when a first argument is given and \<^verbatim>\<open>sscanf\<close> does
  not convert it (every run that prints the usage line ends with status 1), and when
  \<^verbatim>\<open>libusb_set_option\<close> or \<^verbatim>\<open>libusb_init\<close> fails; when wrapping, a claim or a control
  transfer fails, it is the negative return code of the first call that failed; otherwise
  the run stays in the loop. No run ends with status 0. Nothing is said here about a
  run without the file-descriptor argument (see C1).
\<close>

theorem exit_status:
  "snd (main fuel e argv) \<noteq> Exit 0 \<and>
   (sscanf_d arg = Scan_EOF \<or> sscanf_d arg = Scan_mismatch \<longrightarrow>
      snd (main fuel e (prog # arg # rest)) = Exit 1) \<and>
   (sscanf_d arg = Scan_ok fd \<longrightarrow>
      snd (main fuel e (prog # arg # rest)) =
        (if set_option_rc e < 0 then Exit 1
         else if init_rc e < 0 then Exit 1
         else if fst (wrap_sys_device e fd) < 0 then Exit (fst (wrap_sys_device e fd))
         else if claim_interface e 0 < 0 then Exit (claim_interface e 0)
         else if claim_interface e 1 < 0 then Exit (claim_interface e 1)
         else if line_state_rc e < 0 then Exit (line_state_rc e)
         else if line_encoding_rc e < 0 then Exit (line_encoding_rc e)
         else Running)) \<and>
   (fst (main fuel e argv) = [Stdout (''usage: '' @ name @ '' <fd>'')] \<longrightarrow>
      snd (main fuel e argv) = Exit 1)"
proof (intro conjI impI)
  show "snd (main fuel e argv) \<noteq> Exit 0"
  proof (cases fuel e argv rule: main_cases)
    case (3 fd)
    then show ?thesis by (simp add: body_never_exits_0)
  qed simp_all
next
  assume "sscanf_d arg = Scan_EOF \<or> sscanf_d arg = Scan_mismatch"
  then show "snd (main fuel e (prog # arg # rest)) = Exit 1"
    by (simp add: usage_when_scan_fails)
next
  assume "sscanf_d arg = Scan_ok fd"
  then have "main fuel e (prog # arg # rest) = main_body fuel e fd"
    by (rule main_scan_ok)
  then show "snd (main fuel e (prog # arg # rest)) =
        (if set_option_rc e < 0 then Exit 1
         else if init_rc e < 0 then Exit 1
         else if fst (wrap_sys_device e fd) < 0 then Exit (fst (wrap_sys_device e fd))
         else if claim_interface e 0 < 0 then Exit (claim_interface e 0)
         else if claim_interface e 1 < 0 then Exit (claim_interface e 1)
         else if line_state_rc e < 0 then Exit (line_state_rc e)
         else if line_encoding_rc e < 0 then Exit (line_encoding_rc e)
         else Running)"
    by (simp only: body_exit_status)
next
  assume u: "fst (main fuel e argv) = [Stdout (''usage: '' @ name @ '' <fd>'')]"
  show "snd (main fuel e argv) = Exit 1"
  proof (cases fuel e argv rule: main_cases)
    case 1
    with u show ?thesis by simp
  next
    case (2 prog)
    then show ?thesis by simp
  next
    case (3 fd)
    with u body_trace_not_usage [of fuel e fd] show ?thesis by simp
  qed
qed

theorem exit_status_witness:
  "sscanf_d ''x'' = Scan_mismatch \<and>
   snd (main 1 env_ok [''usbtest'', ''x'']) = Exit 1 \<and>
   sscanf_d ''7'' = Scan_ok 7 \<and>
   snd (main 1 env_init_fails [''usbtest'', ''7'']) = Exit 1 \<and>
   snd (main 1 env_wrap_fails [''usbtest'', ''7'']) = Exit (- 4) \<and>
   snd (main 1 env_claim_fails [''usbtest'', ''7'']) = Exit (- 6) \<and>
   snd (main 1 env_line_state_fails [''usbtest'', ''7'']) = Exit (- 1) \<and>
   snd (main 1 env_ok [''usbtest'', ''7'']) = Running"
proof -
  note st = exit_status [where fuel = 1 and prog = "''usbtest''" and rest = "[]" and argv = "[]"
      and name = "[]"]
  from st [where arg = "''x''" and e = env_ok and fd = 0] scan_x
  have "snd (main 1 env_ok [''usbtest'', ''x'']) = Exit 1"
    by simp
  moreover from st [where arg = "''7''" and e = env_init_fails and fd = 7] scan_7
  have "snd (main 1 env_init_fails [''usbtest'', ''7'']) = Exit 1"
    by (simp add: env_init_fails_def env_ok_def)
  moreover from st [where arg = "''7''" and e = env_wrap_fails and fd = 7] scan_7
  have "snd (main 1 env_wrap_fails [''usbtest'', ''7'']) = Exit (- 4)"
    by (simp add: env_wrap_fails_def env_ok_def)
  moreover from st [where arg = "''7''" and e = env_claim_fails and fd = 7] scan_7
  have "snd (main 1 env_claim_fails [''usbtest'', ''7'']) = Exit (- 6)"
    by (simp add: env_claim_fails_def env_ok_def)
  moreover from st [where arg = "''7''" and e = env_line_state_fails and fd = 7] scan_7
  have "snd (main 1 env_line_state_fails [''usbtest'', ''7'']) = Exit (- 1)"
    by (simp add: env_line_state_fails_def env_ok_def)
  moreover from st [where arg = "''7''" and e = env_ok and fd = 7] scan_7
  have "snd (main 1 env_ok [''usbtest'', ''7'']) = Running"
    by (simp add: env_ok_def)
  ultimately show ?thesis
    using scan_x scan_7 by simp
qed

subsection \<open>C8: the shape of an iteration\<close>

text \<open>
  C8. Once the loop is reached, the run consists of the events before the loop (none of
  them a bulk transfer) followed by the events of iterations 0, 1, 2, ... and never ends.
  The transfers and pauses of every iteration are, in this order: one bulk transfer of
  the single byte 't' to endpoint 0x02 with timeout 0, one bulk read of up to 64 bytes
  from endpoint 0x82 with a timeout of 1000 ms, and a pause of one second.
\<close>

theorem loop_iteration_shape:
  assumes "snd (main 0 e argv) = Running"
  shows "main fuel e argv =
      (fst (main 0 e argv) @ concat (map (loop_body e) [0..<fuel]), Running) \<and>
    filter is_bulk (fst (main 0 e argv)) = [] \<and>
    filter is_transfer_or_pause (loop_body e i) =
      [Bulk_write 0x02 [of_char CHR ''t''] 0, Bulk_read 0x82 64 1000, Sleep 1]"
  using main_streaming [OF assms, of fuel] main_no_bulk_before_loop [of e argv]
    transfers_in_loop_body [of e i]
  by simp

theorem loop_iteration_shape_witness:
  "snd (main 0 env_ok argv_ok) = Running \<and>
   snd (main 3 env_ok argv_ok) = Running \<and>
   filter is_transfer_or_pause (fst (main 2 env_ok argv_ok)) =
     [line_state_transfer, line_encoding_transfer,
      Bulk_write 0x02 [0x74] 0, Bulk_read 0x82 64 1000, Sleep 1,
      Bulk_write 0x02 [0x74] 0, Bulk_read 0x82 64 1000, Sleep 1]"
proof -
  have a: "snd (main 0 env_ok argv_ok) = Running"
    unfolding env_ok_run_0 by simp
  have two: "[0..<2] = [0, Suc 0]"
    by (simp add: upt_rec)
  from loop_iteration_shape [OF a, of 3] have "snd (main 3 env_ok argv_ok) = Running"
    by simp
  moreover from loop_iteration_shape [OF a, of 2 0] loop_iteration_shape [OF a, of 2 "Suc 0"]
  have "filter is_transfer_or_pause (fst (main 2 env_ok argv_ok)) =
     [line_state_transfer, line_encoding_transfer,
      Bulk_write 0x02 [0x74] 0, Bulk_read 0x82 64 1000, Sleep 1,
      Bulk_write 0x02 [0x74] 0, Bulk_read 0x82 64 1000, Sleep 1]"
    unfolding env_ok_run_0 two
    by (simp add: is_transfer_or_pause_def transfer_kinds)
  ultimately show ?thesis
    using a by simp
qed

subsection \<open>C9: the release call is dead code\<close>

text \<open>
  C9. No run calls \<^verbatim>\<open>libusb_release_interface\<close>: the loop condition is the constant 1.
  A run that closes the device handle is one that ends with a negative return code
  through the label \<^verbatim>\<open>out\<close>; a run that is in the loop has not closed it.
\<close>

theorem release_is_never_called:
  "Release_interface k \<notin> set (fst (main fuel e argv)) \<and>
   (Close \<in> set (fst (main fuel e argv)) \<longrightarrow> (\<exists>rc<0. snd (main fuel e argv) = Exit rc)) \<and>
   (snd (main fuel e argv) = Running \<longrightarrow> Close \<notin> set (fst (main fuel e argv)))"
proof (cases fuel e argv rule: main_cases)
  case 1
  then show ?thesis by simp
next
  case (2 prog)
  then show ?thesis by simp
next
  case (3 fd)
  show ?thesis
    unfolding 3 using body_no_release [of k fuel e fd] body_close [of fuel e fd]
    by auto
qed

theorem release_is_never_called_witness:
  "Close \<in> set (fst (main 1 env_claim_fails argv_ok)) \<and>
   snd (main 1 env_claim_fails argv_ok) = Exit (- 6) \<and>
   snd (main 4 env_ok argv_ok) = Running \<and>
   Close \<notin> set (fst (main 4 env_ok argv_ok)) \<and>
   Release_interface 0 \<notin> set (fst (main 4 env_ok argv_ok))"
proof -
  have a: "Close \<in> set (fst (main 1 env_claim_fails argv_ok))"
    "snd (main 1 env_claim_fails argv_ok) = Exit (- 6)"
    unfolding env_claim_fails_run by simp_all
  have "snd (main 0 env_ok argv_ok) = Running"
    unfolding env_ok_run_0 by simp
  from main_streaming [OF this, of 4] have b: "snd (main 4 env_ok argv_ok) = Running"
    by (rule arg_cong [where f = snd, THEN trans]) simp
  from release_is_never_called [of 0 4 env_ok argv_ok] b
  have "Close \<notin> set (fst (main 4 env_ok argv_ok)) \<and>
     Release_interface 0 \<notin> set (fst (main 4 env_ok argv_ok))"
    by blast
  with a b show ?thesis by simp
qed

subsection \<open>C10: the index of the terminating zero\<close>

text \<open>
  C10. In every iteration the index \<open>len\<close> of \<^verbatim>\<open>buf[len] = 0\<close> lies within 0..64, also
  when the read times out or fails. The code does not check the value returned by
  \<^verbatim>\<open>read_chars\<close>: when the first read times out, that value is -1 and the store goes
  to \<^verbatim>\<open>buf[-1]\<close>, in front of the buffer (\<open>store_index\<close> gives the index of every
  iteration).
\<close>

theorem store_index_after_timeout:
  "fst (bulk_read env_read_timeout 0) = LIBUSB_ERROR_TIMEOUT \<and>
   filter is_store (fst (main 1 env_read_timeout argv_ok)) = [Store_buf (- 1)]"
proof
  show "fst (bulk_read env_read_timeout 0) = LIBUSB_ERROR_TIMEOUT"
    by (simp add: env_read_timeout_def env_ok_def LIBUSB_ERROR_TIMEOUT_def)
  show "filter is_store (fst (main 1 env_read_timeout argv_ok)) = [Store_buf (- 1)]"
    unfolding env_read_timeout_run_1 by (simp add: transfer_defs)
qed

end
